theory Spec2Isabelle
  imports Main "HOL-Library.AList"
begin

section \<open>JSON values and JavaScript objects\<close>

text \<open>
  Events, Lambda payloads and Lambda results are JSON documents. An object is an
  association list in insertion order; a key is looked up with \<open>map_of\<close> and assigned
  with \<open>AList.update\<close> (replace in place, or append), which is what a JavaScript
  property assignment does. Numbers are restricted to integers.
\<close>

datatype json =
    JNull
  | JBool bool
  | JNum int
  | JStr string
  | JArr "json list"
  | JObj "(string \<times> json) list"

text \<open>JavaScript truthiness of a JSON value (\<open>if (v)\<close>, \<open>v || d\<close>).\<close>

fun truthy :: "json \<Rightarrow> bool" where
  "truthy JNull = False"
| "truthy (JBool b) = b"
| "truthy (JNum n) = (n \<noteq> 0)"
| "truthy (JStr s) = (s \<noteq> [])"
| "truthy (JArr _) = True"
| "truthy (JObj _) = True"

text \<open>
  Property access \<open>v.k\<close>: \<open>None\<close> is \<open>undefined\<close>; reading a property of \<open>null\<close>
  throws a TypeError, whose message is the \<open>Inl\<close> value.
\<close>

fun get_prop :: "json \<Rightarrow> string \<Rightarrow> string + json option" where
  "get_prop JNull k = Inl (''Cannot read properties of null (reading '' @ [CHR 0x27] @ k @ [CHR 0x27] @ '')'')"
| "get_prop (JObj kvs) k = Inr (map_of kvs k)"
| "get_prop _ k = Inr None"

text \<open>\<open>a || b\<close> where \<open>a\<close> may be \<open>undefined\<close>.\<close>

definition js_or :: "json option \<Rightarrow> json \<Rightarrow> json" where
  "js_or a b = (case a of None \<Rightarrow> b | Some v \<Rightarrow> if truthy v then v else b)"

section \<open>The tenant-provisioning handler (docker/tenantprov/index.js)\<close>

text \<open>
  The handler writes the script to a file and runs it with bash. The operating system
  is a parameter: \<open>writeFile\<close> takes the file system, the path, the data and the mode
  and gives the error message of the rejected promise or the new file system;
  \<open>exec\<close> is the promisified \<open>child_process.exec\<close>, which rejects (with an error
  message) when the command exits with a non-zero status and resolves with the two
  output streams otherwise.
\<close>

datatype exec_outcome =
    ExecRejected string
  | ExecResolved string string

record 'fs os =
  writeFile :: "'fs \<Rightarrow> string \<Rightarrow> json \<Rightarrow> nat \<Rightarrow> string + 'fs"
  exec :: "'fs \<Rightarrow> string \<Rightarrow> exec_outcome"

definition defaultScript :: string where
  "defaultScript = ''#!/bin/bash'' @ [CHR 0x0A] @ ''echo \"No script provided!\"''"

text \<open>The file mode \<open>0o755\<close>.\<close>

definition mode_0o755 :: nat where
  "mode_0o755 = 7 * 64 + 5 * 8 + 5"

definition scriptPath :: string where
  "scriptPath = ''/tmp/prov-script.sh''"

text \<open>The \<open>catch\<close> block: \<open>return { error: error.message }\<close>.\<close>

definition error_result :: "string \<Rightarrow> json" where
  "error_result msg = JObj [(''error'', JStr msg)]"

definition tenantprov_handler :: "'fs os \<Rightarrow> 'fs \<Rightarrow> json \<Rightarrow> json" where
  "tenantprov_handler sys fs event =
     (case get_prop event ''script'' of
        Inl msg \<Rightarrow> error_result msg
      | Inr s \<Rightarrow>
          (let scriptContent = js_or s (JStr defaultScript) in
           case writeFile sys fs scriptPath scriptContent mode_0o755 of
             Inl msg \<Rightarrow> error_result msg
           | Inr fs' \<Rightarrow>
               (case exec sys fs' (''/bin/bash '' @ scriptPath) of
                  ExecRejected msg \<Rightarrow> error_result msg
                | ExecResolved stdout stderr \<Rightarrow>
                    if stderr \<noteq> [] then error_result (''Script execution error: '' @ stderr)
                    else JObj [(''output'', JStr stdout)])))"

section \<open>Strings\<close>

text \<open>Splitting a string at a character, and removing a prefix or a suffix.\<close>

fun split_at :: "char \<Rightarrow> string \<Rightarrow> string list" where
  "split_at sep [] = [[]]"
| "split_at sep (c # cs) =
     (if c = sep then [] # split_at sep cs
      else (case split_at sep cs of [] \<Rightarrow> [[c]] | k # ks \<Rightarrow> (c # k) # ks))"

fun strip_prefix :: "string \<Rightarrow> string \<Rightarrow> string option" where
  "strip_prefix [] s = Some s"
| "strip_prefix (p # ps) [] = None"
| "strip_prefix (p # ps) (c # cs) = (if p = c then strip_prefix ps cs else None)"

definition strip_suffix :: "string \<Rightarrow> string \<Rightarrow> string option" where
  "strip_suffix suf s = map_option rev (strip_prefix (rev suf) (rev s))"

definition trim :: "string \<Rightarrow> string" where
  "trim s = rev (dropWhile (\<lambda>c. c = CHR '' '') (rev (dropWhile (\<lambda>c. c = CHR '' '') s)))"

section \<open>A fragment of bash\<close>

text \<open>
  What bash does with a script of \<open>echo\<close> commands: one command list per line,
  commands separated by \<open>;\<close>, a line that starts with \<open>#\<close> being a comment. An
  \<open>echo\<close> prints its argument and a newline, on stdout or, with \<open>>&2\<close>, on stderr.
  The argument is a word of letters, digits and underscores, or a text between double
  quotes made of such characters, spaces and the punctuation marks \<open>! . , : -\<close>, which
  bash prints without the quotes (a non-interactive bash does no history expansion).
  The result is \<open>None\<close> for a script outside this fragment.
\<close>

definition word_char :: "char \<Rightarrow> bool" where
  "word_char c =
     (c \<in> set (''abcdefghijklmnopqrstuvwxyz'' @ ''ABCDEFGHIJKLMNOPQRSTUVWXYZ'' @ ''0123456789_''))"

definition quoted_char :: "char \<Rightarrow> bool" where
  "quoted_char c = (word_char c \<or> c \<in> set '' !.,:-'')"

definition echo_argument :: "string \<Rightarrow> string option" where
  "echo_argument a =
     (case a of
        [] \<Rightarrow> None
      | c # r \<Rightarrow>
          if c = CHR 0x22
          then (case rev r of
                  [] \<Rightarrow> None
                | d # m \<Rightarrow> if d = CHR 0x22 \<and> list_all quoted_char m then Some (rev m) else None)
          else if list_all word_char a then Some a else None)"

definition bash_command :: "string \<Rightarrow> (string \<times> string) option" where
  "bash_command cmd =
     (if trim cmd = [] then Some ([], [])
      else (case strip_prefix ''echo '' (trim cmd) of
              None \<Rightarrow> None
            | Some a \<Rightarrow>
                (case strip_suffix '' >&2'' a of
                   Some b \<Rightarrow> map_option (\<lambda>t. ([], t @ [CHR 0x0A])) (echo_argument (trim b))
                 | None \<Rightarrow> map_option (\<lambda>t. (t @ [CHR 0x0A], [])) (echo_argument (trim a)))))"

fun bash_commands :: "string list \<Rightarrow> (string \<times> string) option" where
  "bash_commands [] = Some ([], [])"
| "bash_commands (c # cs) =
     (case bash_command c of
        None \<Rightarrow> None
      | Some (out, err) \<Rightarrow>
          (case bash_commands cs of
             None \<Rightarrow> None
           | Some (out', err') \<Rightarrow> Some (out @ out', err @ err')))"

definition bash_line :: "string \<Rightarrow> string list" where
  "bash_line l = (case trim l of [] \<Rightarrow> [] | c # r \<Rightarrow> if c = CHR ''#'' then [] else split_at (CHR '';'') l)"

definition bash :: "string \<Rightarrow> exec_outcome option" where
  "bash scr =
     (case bash_commands (concat (map bash_line (split_at (CHR 0x0A) scr))) of
        None \<Rightarrow> None
      | Some (out, err) \<Rightarrow> Some (ExecResolved out err))"

text \<open>
  A small operating system for concrete runs: files are kept in a map, and
  \<open>/bin/bash path\<close> runs the text of the file, as far as the fragment goes.
\<close>

definition toy_os :: "(string \<rightharpoonup> json) os" where
  "toy_os = \<lparr>
     writeFile = (\<lambda>fs p d m. Inr (fs(p \<mapsto> d))),
     exec = (\<lambda>fs cmd.
       case strip_prefix ''/bin/bash '' cmd of
         None \<Rightarrow> ExecRejected ''Command failed''
       | Some path \<Rightarrow>
           (case fs path of
              Some (JStr scr) \<Rightarrow>
                (case bash scr of None \<Rightarrow> ExecRejected ''Command failed'' | Some r \<Rightarrow> r)
            | _ \<Rightarrow> ExecRejected ''Command failed'')) \<rparr>"

section \<open>Events and the services behind the state machine\<close>

text \<open>
  Modelled from the spec: the enum \<open>DetailType\<close> is declared in \<open>../utils\<close>, which
  is not among the sources; these are the event kinds of the spec's data model, which
  are the members the sources use.
\<close>

datatype DetailType =
    ONBOARDING_REQUEST
  | PROVISION_SUCCESS
  | PROVISION_FAILURE
  | OFFBOARDING_REQUEST
  | DEPROVISION_SUCCESS
  | DEPROVISION_FAILURE

record 'd PutEventsEntry =
  detailType :: DetailType
  detail :: 'd
  source :: string
  eventBus :: string

text \<open>
  The services behind the machine, parameters of the model:
  \<^item> \<open>jsonToString\<close>, the intrinsic function \<open>States.JsonToString\<close>;
  \<^item> \<open>jsonPath\<close>, the value (if any) of an expression that is not a plain path, in a
    state input: a JSONPath with brackets or other operators, another intrinsic
    function;
  \<^item> \<open>lambdaError\<close>, the error name and cause that the Lambda integration reports
    for a rejected invocation;
  \<^item> \<open>serviceException\<close>, the error name and cause with which the Lambda service
    itself fails the invocation attempt of that number, if it does;
  \<^item> \<open>putEvents\<close>, the PutEvents call, which gives its response or \<open>None\<close> when the
    call fails.
\<close>

record platform =
  jsonToString :: "json \<Rightarrow> string"
  jsonPath :: "string \<Rightarrow> json \<Rightarrow> json option"
  lambdaError :: "json \<Rightarrow> string \<times> string"
  serviceException :: "nat \<Rightarrow> (string \<times> string) option"
  putEvents :: "json PutEventsEntry list \<Rightarrow> json option"

section \<open>JSONPath and ResultPath\<close>

text \<open>
  A plain name is a non-empty string of letters, digits and underscores that does not
  start with a digit. A plain path
  has the form \<open>$.a.b.c\<close>, the root followed by child steps with plain names; its
  value is found by descending through the objects. Every other expression is left
  to the service (\<open>jsonPath\<close>).
\<close>

definition plain_char :: "char \<Rightarrow> bool" where
  "plain_char c =
     (c \<in> set (''abcdefghijklmnopqrstuvwxyz'' @ ''ABCDEFGHIJKLMNOPQRSTUVWXYZ'' @ ''0123456789_''))"

definition plain_name :: "string \<Rightarrow> bool" where
  "plain_name n = (n \<noteq> [] \<and> hd n \<notin> set ''0123456789'' \<and> list_all plain_char n)"

definition parse_path :: "string \<Rightarrow> string list option" where
  "parse_path p =
     (case p of
        [] \<Rightarrow> None
      | c # rest \<Rightarrow>
          if c \<noteq> CHR ''$'' then None
          else (case rest of
                  [] \<Rightarrow> Some []
                | d # r \<Rightarrow>
                    if d \<noteq> CHR ''.'' then None
                    else (let ks = split_at (CHR ''.'') r
                          in if list_all plain_name ks then Some ks else None)))"

fun get_keys :: "string list \<Rightarrow> json \<Rightarrow> json option" where
  "get_keys [] v = Some v"
| "get_keys (k # ks) (JObj kvs) = (case map_of kvs k of None \<Rightarrow> None | Some v \<Rightarrow> get_keys ks v)"
| "get_keys (k # ks) _ = None"

definition get_path :: "platform \<Rightarrow> string \<Rightarrow> json \<Rightarrow> json option" where
  "get_path pf p v = (case parse_path p of None \<Rightarrow> jsonPath pf p v | Some ks \<Rightarrow> get_keys ks v)"

text \<open>
  A state's ResultPath stores the task result \<open>r\<close> inside the state input, creating
  the objects on the way. The ResultPaths of this program are plain paths.
\<close>

fun put_keys :: "string list \<Rightarrow> json \<Rightarrow> json \<Rightarrow> json" where
  "put_keys [] r v = r"
| "put_keys (k # ks) r (JObj kvs) =
     JObj (AList.update k (put_keys ks r (case map_of kvs k of None \<Rightarrow> JObj [] | Some c \<Rightarrow> c)) kvs)"
| "put_keys (k # ks) r _ = JObj [(k, put_keys ks r (JObj []))]"

definition put_path :: "string \<Rightarrow> json \<Rightarrow> json \<Rightarrow> json option" where
  "put_path p r v = (case parse_path p of None \<Rightarrow> None | Some ks \<Rightarrow> Some (put_keys ks r v))"

section \<open>Task inputs (stepfunctions.TaskInput.fromObject, stepfunctions.JsonPath)\<close>

text \<open>
  The object handed to \<open>TaskInput.fromObject\<close> holds JsonPath tokens, plain JSON
  values and nested objects. \<open>StringAt\<close> and \<open>ObjectAt\<close> differ only in their
  TypeScript type; \<open>JsonToString\<close> is \<open>JsonPath.jsonToString\<close>.
\<close>

datatype token =
    StringAt string
  | ObjectAt string
  | JsonToString token

datatype tmpl =
    Tok token
  | Lit json
  | Obj "(string \<times> tmpl) list"

text \<open>The expression a token stands for in the state machine definition.\<close>

fun token_expr :: "token \<Rightarrow> string" where
  "token_expr (StringAt p) = p"
| "token_expr (ObjectAt p) = p"
| "token_expr (JsonToString t) = ''States.JsonToString('' @ token_expr t @ '')''"

text \<open>
  Rendering into the parameters of the state: a field that holds a token gets the
  suffix \<open>.$\<close> and the expression of the token as its value; every other value,
  with its keys, is copied as it is. (The objects of this program have distinct keys.)
\<close>

fun render :: "tmpl \<Rightarrow> json"
  and render_fields :: "(string \<times> tmpl) list \<Rightarrow> (string \<times> json) list"
where
  "render (Tok t) = JStr (token_expr t)"
| "render (Lit v) = v"
| "render (Obj fs) = JObj (render_fields fs)"
| "render_fields [] = []"
| "render_fields ((k, Tok t) # fs) = (k @ ''.$'', JStr (token_expr t)) # render_fields fs"
| "render_fields ((k, Lit v) # fs) = (k, v) # render_fields fs"
| "render_fields ((k, Obj gs) # fs) = (k, JObj (render_fields gs)) # render_fields fs"

section \<open>Parameters of a state (Amazon States Language)\<close>

text \<open>
  Errors of an execution, as Step Functions documents them. \<open>Runtime\<close> is
  \<open>States.Runtime\<close>, raised by the service itself when a path in the parameters of a
  state (also as the argument of an intrinsic function) is not found in the state
  input; it always fails the execution: no retrier and no catcher matches it, not
  even \<open>States.ALL\<close>. \<open>TaskFailed name cause\<close> is an error reported by the task (the
  service integration or the invoked function); \<open>States.ALL\<close> matches every such
  error.
\<close>

datatype sfn_error =
    Runtime string
  | TaskFailed string string

text \<open>The argument of \<open>States.JsonToString(...)\<close>, when the expression is such a call.\<close>

definition jsonToString_arg :: "string \<Rightarrow> string option" where
  "jsonToString_arg e =
     (case strip_prefix ''States.JsonToString('' e of
        None \<Rightarrow> None
      | Some r \<Rightarrow> strip_suffix '')'' r)"

definition eval_expr :: "platform \<Rightarrow> string \<Rightarrow> json \<Rightarrow> sfn_error + json" where
  "eval_expr pf e inp =
     (case jsonToString_arg e of
        Some a \<Rightarrow>
          (case get_path pf a inp of
             None \<Rightarrow> Inl (Runtime a)
           | Some v \<Rightarrow> Inr (JStr (jsonToString pf v)))
      | None \<Rightarrow>
          (case get_path pf e inp of
             None \<Rightarrow> Inl (Runtime e)
           | Some v \<Rightarrow> Inr v))"

text \<open>
  When a state runs, its parameters are resolved against the state input: at every
  depth, a field whose name ends in \<open>.$\<close> is replaced by the field without the
  suffix, holding the value of the expression; everything else is kept.
\<close>

fun resolve :: "platform \<Rightarrow> json \<Rightarrow> json \<Rightarrow> sfn_error + json"
  and resolve_fields :: "platform \<Rightarrow> (string \<times> json) list \<Rightarrow> json \<Rightarrow> sfn_error + (string \<times> json) list"
  and resolve_list :: "platform \<Rightarrow> json list \<Rightarrow> json \<Rightarrow> sfn_error + json list"
where
  "resolve pf JNull inp = Inr JNull"
| "resolve pf (JBool b) inp = Inr (JBool b)"
| "resolve pf (JNum n) inp = Inr (JNum n)"
| "resolve pf (JStr s) inp = Inr (JStr s)"
| "resolve pf (JArr xs) inp =
     (case resolve_list pf xs inp of Inl e \<Rightarrow> Inl e | Inr ys \<Rightarrow> Inr (JArr ys))"
| "resolve pf (JObj fs) inp =
     (case resolve_fields pf fs inp of Inl e \<Rightarrow> Inl e | Inr kvs \<Rightarrow> Inr (JObj kvs))"
| "resolve_fields pf [] inp = Inr []"
| "resolve_fields pf ((k, v) # fs) inp =
     (case (case strip_suffix ''.$'' k of
              Some k' \<Rightarrow>
                (case v of
                   JStr e \<Rightarrow> (case eval_expr pf e inp of Inl err \<Rightarrow> Inl err | Inr x \<Rightarrow> Inr (k', x))
                 | _ \<Rightarrow> Inl (Runtime k))
            | None \<Rightarrow> (case resolve pf v inp of Inl err \<Rightarrow> Inl err | Inr x \<Rightarrow> Inr (k, x))) of
        Inl err \<Rightarrow> Inl err
      | Inr kx \<Rightarrow>
          (case resolve_fields pf fs inp of Inl err \<Rightarrow> Inl err | Inr kvs \<Rightarrow> Inr (kx # kvs)))"
| "resolve_list pf [] inp = Inr []"
| "resolve_list pf (x # xs) inp =
     (case resolve pf x inp of
        Inl err \<Rightarrow> Inl err
      | Inr y \<Rightarrow> (case resolve_list pf xs inp of Inl err \<Rightarrow> Inl err | Inr ys \<Rightarrow> Inr (y # ys)))"

fun resolve_entries ::
  "platform \<Rightarrow> json PutEventsEntry list \<Rightarrow> json \<Rightarrow> sfn_error + json PutEventsEntry list"
where
  "resolve_entries pf [] inp = Inr []"
| "resolve_entries pf (e # es) inp =
     (case resolve pf (detail e) inp of
        Inl err \<Rightarrow> Inl err
      | Inr d \<Rightarrow>
          (case resolve_entries pf es inp of
             Inl err \<Rightarrow> Inl err
           | Inr ds \<Rightarrow>
               Inr (\<lparr>detailType = detailType e, detail = d, source = source e,
                      eventBus = eventBus e\<rparr> # ds)))"


section \<open>Lambda functions and state machines (aws-lambda, aws-stepfunctions)\<close>

datatype invoke_result =
    Rejected json
  | Resolved json

text \<open>
  A Lambda function: its code (the handler, run in a process that has the configured
  environment, on the invocation payload), its environment and its timeout in seconds.
  The handler is deterministic: its outcome is a function of the environment and the
  payload, the same at every attempt.
\<close>

record Function =
  fn_code :: "(string \<times> string) list \<Rightarrow> json \<Rightarrow> invoke_result"
  fn_environment :: "(string \<times> string) list"
  fn_timeout :: nat

definition invoke :: "Function \<Rightarrow> json \<Rightarrow> invoke_result" where
  "invoke f payload = fn_code f (fn_environment f) payload"

text \<open>A task with its parameters as rendered.\<close>

datatype task =
    LambdaInvoke Function json
  | EventBridgePutEvents "json PutEventsEntry list"

text \<open>
  A retrier: the error names and the maximal number of retries. A task state: its
  name, the task, its ResultPath, its retriers, its catchers (error names, the
  ResultPath of the error, the handler state) and the next state.
\<close>

datatype retrier = Retrier "string list" nat

datatype state =
    Task string task string "retrier list" "catcher list" "state option"
and catcher =
    Catcher "string list" string state

fun addCatch :: "state \<Rightarrow> state \<Rightarrow> string list \<Rightarrow> string \<Rightarrow> state" where
  "addCatch (Task i t rp rs cs nx) h errors resultPath =
     Task i t rp rs (cs @ [Catcher errors resultPath h]) nx"

fun next_state :: "state \<Rightarrow> state \<Rightarrow> state" where
  "next_state (Task i t rp rs cs nx) s = Task i t rp rs cs (Some s)"

text \<open>
  \<open>new tasks.LambdaInvoke\<close> with \<open>retryOnServiceExceptions\<close> left at its default adds
  this retrier to the state (interval two seconds, back-off rate two, six retries);
  \<open>new tasks.EventBridgePutEvents\<close> adds none.
\<close>

definition retryOnServiceExceptions :: "retrier list" where
  "retryOnServiceExceptions =
     [Retrier [''Lambda.ClientExecutionTimeoutException'', ''Lambda.ServiceException'',
               ''Lambda.AWSLambdaException'', ''Lambda.SdkClientException''] 6]"

definition new_LambdaInvoke :: "string \<Rightarrow> Function \<Rightarrow> tmpl \<Rightarrow> string \<Rightarrow> state" where
  "new_LambdaInvoke i f payload resultPath =
     Task i (LambdaInvoke f (render payload)) resultPath retryOnServiceExceptions [] None"

definition new_EventBridgePutEvents :: "string \<Rightarrow> tmpl PutEventsEntry list \<Rightarrow> string \<Rightarrow> state" where
  "new_EventBridgePutEvents i entries resultPath =
     Task i
       (EventBridgePutEvents
          (map (\<lambda>e. \<lparr>detailType = detailType e, detail = render (detail e), source = source e,
                      eventBus = eventBus e\<rparr>) entries))
       resultPath [] [] None"

record StateMachine =
  sm_definition :: state
  sm_timeout :: "nat option"
  tracingEnabled :: bool

definition minutes :: "nat \<Rightarrow> nat" where
  "minutes n = n * 60"

definition hours :: "nat \<Rightarrow> nat" where
  "hours n = n * 3600"

subsection \<open>Running a state machine\<close>

text \<open>
  What an execution does to the outside: it calls the Lambda function with a
  payload (once per attempt), and a state (named) publishes an entry on the bus.
\<close>

datatype action =
    Invoked json
  | Published string "json PutEventsEntry"

text \<open>Whether the error names of a retrier or catcher match an error.\<close>

fun catches :: "string list \<Rightarrow> sfn_error \<Rightarrow> bool" where
  "catches errors (Runtime _) = False"
| "catches errors (TaskFailed name cause) = (''States.ALL'' \<in> set errors \<or> name \<in> set errors)"

fun error_output :: "sfn_error \<Rightarrow> json" where
  "error_output (Runtime c) = JObj [(''Error'', JStr ''States.Runtime''), (''Cause'', JStr c)]"
| "error_output (TaskFailed name cause) = JObj [(''Error'', JStr name), (''Cause'', JStr cause)]"

text \<open>
  The Lambda integration answers with an object whose \<open>Payload\<close> is the function's
  result (its other fields are not read by this program).
\<close>

definition lambda_response :: "json \<Rightarrow> json" where
  "lambda_response r = JObj [(''Payload'', r), (''StatusCode'', JNum 200)]"

text \<open>
  One attempt of a task; \<open>k\<close> is the number of the attempt. A PutEvents call that
  fails is reported under a single error name, which stands for whatever the service
  reports (a timeout of the call included).
\<close>

fun run_task :: "platform \<Rightarrow> string \<Rightarrow> task \<Rightarrow> json \<Rightarrow> nat \<Rightarrow> action list \<times> (sfn_error + json)" where
  "run_task pf i (LambdaInvoke f payload) inp k =
     (case resolve pf payload inp of
        Inl e \<Rightarrow> ([], Inl e)
      | Inr p \<Rightarrow>
          ([Invoked p],
           case serviceException pf k of
             Some (name, cause) \<Rightarrow> Inl (TaskFailed name cause)
           | None \<Rightarrow>
               (case invoke f p of
                  Rejected v \<Rightarrow> Inl (TaskFailed (fst (lambdaError pf v)) (snd (lambdaError pf v)))
                | Resolved r \<Rightarrow> Inr (lambda_response r))))"
| "run_task pf i (EventBridgePutEvents entries) inp k =
     (case resolve_entries pf entries inp of
        Inl e \<Rightarrow> ([], Inl e)
      | Inr es \<Rightarrow>
          (case putEvents pf es of
             None \<Rightarrow> ([], Inl (TaskFailed ''EventBridge.PutEventsFailed'' []))
           | Some response \<Rightarrow> (map (Published i) es, Inr response)))"

definition after :: "action list \<Rightarrow> action list \<times> 'a \<Rightarrow> action list \<times> 'a" where
  "after acts r = (acts @ fst r, snd r)"

text \<open>
  The first retrier that matches the error decides: with retries left it is used
  (and has one retry less), with none left the error stands.
\<close>

fun retry_with :: "retrier list \<Rightarrow> sfn_error \<Rightarrow> retrier list option" where
  "retry_with [] err = None"
| "retry_with (Retrier errors n # rs) err =
     (if catches errors err
      then (case n of 0 \<Rightarrow> None | Suc m \<Rightarrow> Some (Retrier errors m # rs))
      else map_option (\<lambda>rs'. Retrier errors n # rs') (retry_with rs err))"

fun budget :: "retrier list \<Rightarrow> nat" where
  "budget [] = 0"
| "budget (Retrier errors n # rs) = n + budget rs"

function run_retry ::
  "platform \<Rightarrow> string \<Rightarrow> task \<Rightarrow> retrier list \<Rightarrow> json \<Rightarrow> nat \<Rightarrow> action list \<times> (sfn_error + json)"
where
  "run_retry pf i t rs inp k =
     (case run_task pf i t inp k of
        (acts, Inr res) \<Rightarrow> (acts, Inr res)
      | (acts, Inl err) \<Rightarrow>
          (case retry_with rs err of
             None \<Rightarrow> (acts, Inl err)
           | Some rs' \<Rightarrow> after acts (run_retry pf i t rs' inp (Suc k))))"
  by pat_completeness auto
termination
proof (relation "measure (\<lambda>(pf, i, t, rs, inp, k). budget rs)")
  show "wf (measure (\<lambda>(pf, i, t, rs, inp, k). budget rs))"
    by simp
next
  fix pf :: platform and i :: string and t :: task and rs :: "retrier list" and inp :: json
    and k :: nat and x :: "action list \<times> (sfn_error + json)" and acts x2 err rs'
  assume "retry_with rs err = Some rs'"
  then have "budget rs' < budget rs"
  proof (induction rs arbitrary: rs')
    case Nil
    then show ?case by simp
  next
    case (Cons r rs)
    obtain errors n where r: "r = Retrier errors n" by (cases r)
    show ?case
    proof (cases "catches errors err")
      case True
      with Cons.prems r show ?thesis
        by (cases n) auto
    next
      case False
      with Cons.prems r obtain rs'' where "retry_with rs err = Some rs''"
        and "rs' = Retrier errors n # rs''"
        by auto
      with Cons.IH [of rs''] r show ?thesis by simp
    qed
  qed
  then show "((pf, i, t, rs', inp, Suc k), (pf, i, t, rs, inp, k))
               \<in> measure (\<lambda>(pf, i, t, rs, inp, k). budget rs)"
    by simp
qed

fun run_state :: "platform \<Rightarrow> state \<Rightarrow> json \<Rightarrow> action list \<times> (sfn_error + json)"
  and run_catch :: "platform \<Rightarrow> catcher list \<Rightarrow> sfn_error \<Rightarrow> json \<Rightarrow> action list \<times> (sfn_error + json)"
where
  "run_state pf (Task i t rp rs cs nx) inp =
     (case run_retry pf i t rs inp 0 of
        (acts, Inr res) \<Rightarrow>
          (case put_path rp res inp of
             None \<Rightarrow> (acts, Inl (Runtime rp))
           | Some out \<Rightarrow>
               (case nx of
                  None \<Rightarrow> (acts, Inr out)
                | Some s \<Rightarrow> after acts (run_state pf s out)))
      | (acts, Inl err) \<Rightarrow> after acts (run_catch pf cs err inp))"
| "run_catch pf [] err inp = ([], Inl err)"
| "run_catch pf (Catcher errors rp s # cs) err inp =
     (if catches errors err
      then (case put_path rp (error_output err) inp of
              None \<Rightarrow> ([], Inl (Runtime rp))
            | Some out \<Rightarrow> run_state pf s out)
      else run_catch pf cs err inp)"


section \<open>LambdaScriptJob (lambda-script-job.ts)\<close>

text \<open>
  Modelled from the spec: the interfaces \<open>IEventManager\<close> and \<open>ScriptJobProps\<close>
  are declared in files that are not among the sources; the records have the fields
  that the sources read, with the types of the spec's data model. The fields of
  \<open>TenantLifecycleLambdaScriptJobProps\<close> are those of its declaration; \<open>permissions\<close>
  (an IAM policy document) and \<open>postScript\<close> (never read) are left out. An optional
  property is an \<open>option\<close>.
\<close>

record EventManager =
  busArn :: string
  supportedEvents :: "DetailType \<Rightarrow> string"

record OutgoingEventDetailTypes =
  success :: DetailType
  failure :: DetailType

record TenantLifecycleLambdaScriptJobProps =
  script :: string
  environmentStringVariablesFromIncomingEvent :: "string list option"
  environmentJSONVariablesFromIncomingEvent :: "string list option"
  environmentVariablesToOutgoingEvent :: "string list option"
  scriptEnvironmentVariables :: "(string \<times> string) list option"
  eventManager :: EventManager

record ScriptJobProps = TenantLifecycleLambdaScriptJobProps +
  jobIdentifierKey :: string
  jobFailureStatus :: "(string \<times> json) list"
  incomingEvent :: DetailType
  outgoingEvent :: OutgoingEventDetailTypes

text \<open>
  The Node.js runtime of the inline function, a parameter of the model.
  \<open>child_process_exec\<close> is \<open>child_process.exec(command, callback)\<close>: the command
  runs in a shell with the environment of the calling process, and the callback
  receives whether there was an error, stdout and stderr. \<open>other_code\<close> is what the
  generated code does when the script, pasted into it, is not a plain piece of text
  there (see below).
\<close>

record child_process =
  child_process_exec :: "string \<Rightarrow> (string \<times> string) list \<Rightarrow> bool \<times> string \<times> string"
  other_code :: "string \<Rightarrow> (string \<times> string) list \<Rightarrow> json \<Rightarrow> invoke_result"

text \<open>
  \<open>createLambdaFunction\<close> pastes the script between the backquotes of a JavaScript
  template literal in the code of the handler. A script without backquote, dollar
  sign, backslash and carriage return is a text that the literal denotes as it stands.
\<close>

definition template_text :: "string \<Rightarrow> bool" where
  "template_text scr =
     (CHR 0x60 \<notin> set scr \<and> CHR ''$'' \<notin> set scr \<and> CHR 0x5C \<notin> set scr
      \<and> CHR 0x0D \<notin> set scr)"

text \<open>
  The inline handler of \<open>createLambdaFunction\<close>. For a script that is a text of the
  template literal, the handler runs it as the command; it takes \<open>event\<close> and does not
  read it, and \<open>exec\<close> is called without options, so the command runs in the
  environment of the function. For any other script the generated code is some other
  program (the literal interpolates \<open>${...}\<close> with \<open>event\<close> in scope, a backquote
  ends it).
\<close>

definition inline_handler ::
  "child_process \<Rightarrow> string \<Rightarrow> (string \<times> string) list \<Rightarrow> json \<Rightarrow> invoke_result"
where
  "inline_handler cp scr env event =
     (if template_text scr
      then (case child_process_exec cp scr env of
              (error, stdout, stderr) \<Rightarrow>
                if error then Rejected (JObj [(''error'', JStr stderr)])
                else Resolved (JObj [(''output'', JStr stdout)]))
      else other_code cp scr env event)"

text \<open>\<open>Object.assign(target, src)\<close> on objects with string values.\<close>

definition object_assign :: "(string \<times> 'v) list \<Rightarrow> (string \<times> 'v) list \<Rightarrow> (string \<times> 'v) list" where
  "object_assign target src = foldl (\<lambda>acc kv. AList.update (fst kv) (snd kv) acc) target src"

definition createLambdaFunction :: "child_process \<Rightarrow> ScriptJobProps \<Rightarrow> Function" where
  "createLambdaFunction cp props =
     (let environmentVariables =
            (case scriptEnvironmentVariables props of
               None \<Rightarrow> []
             | Some vars \<Rightarrow> object_assign [] vars)
      in \<lparr> fn_code = inline_handler cp (script props),
            fn_environment = environmentVariables,
            fn_timeout = minutes 15 \<rparr>)"

text \<open>\<open>xs?.forEach(f)\<close> over an accumulator that \<open>f\<close> updates.\<close>

definition forEach_opt :: "'a list option \<Rightarrow> ('b \<Rightarrow> 'a \<Rightarrow> 'b) \<Rightarrow> 'b \<Rightarrow> 'b" where
  "forEach_opt xs f acc = (case xs of None \<Rightarrow> acc | Some ys \<Rightarrow> foldl f acc ys)"

text \<open>The template literals \<open>`$.detail.${name}`\<close> and \<open>`$.startLambda.Payload.output.${name}`\<close>.\<close>

definition detail_path :: "string \<Rightarrow> string" where
  "detail_path name = ''$.detail.'' @ name"

definition payload_output_path :: "string \<Rightarrow> string" where
  "payload_output_path name = ''$.startLambda.Payload.output.'' @ name"

definition environmentVariablesOverride :: "ScriptJobProps \<Rightarrow> (string \<times> tmpl) list" where
  "environmentVariablesOverride props =
     forEach_opt (environmentJSONVariablesFromIncomingEvent props)
       (\<lambda>acc importedVar.
          AList.update importedVar (Tok (JsonToString (ObjectAt (detail_path importedVar)))) acc)
       (forEach_opt (environmentStringVariablesFromIncomingEvent props)
          (\<lambda>acc importedVar. AList.update importedVar (Tok (StringAt (detail_path importedVar))) acc)
          [])"

text \<open>
  \<open>exportedVarObj\<close>: the object literal, whose later property \<open>jobOutput\<close> replaces
  an equal computed key; its \<open>jobOutput\<close>, empty in the literal, is filled by the loop
  over \<open>environmentVariablesToOutgoingEvent\<close>.
\<close>

definition exportedVarObj_jobOutput :: "ScriptJobProps \<Rightarrow> (string \<times> tmpl) list" where
  "exportedVarObj_jobOutput props =
     forEach_opt (environmentVariablesToOutgoingEvent props)
       (\<lambda>acc exportedVar.
          AList.update exportedVar (Tok (StringAt (payload_output_path exportedVar))) acc)
       []"

definition exportedVarObj :: "ScriptJobProps \<Rightarrow> (string \<times> tmpl) list" where
  "exportedVarObj props =
     AList.update ''jobOutput'' (Obj (exportedVarObj_jobOutput props))
       [(jobIdentifierKey props, Tok (StringAt (detail_path (jobIdentifierKey props))))]"

text \<open>
  The detail of the failure entry. \<open>jobFailureStatus\<close> is a plain object of the
  caller; \<open>TaskInput.fromObject\<close> copies it into the parameters of the state as it
  is, keys included, so a key of it that ends in \<open>.$\<close> is resolved as a path when the
  state runs (see \<open>resolve\<close>).
\<close>

definition failureDetail :: "ScriptJobProps \<Rightarrow> (string \<times> tmpl) list" where
  "failureDetail props =
     AList.update ''jobOutput'' (Lit (JObj (jobFailureStatus props)))
       [(jobIdentifierKey props, Tok (StringAt (detail_path (jobIdentifierKey props))))]"

definition startLambdaTask :: "ScriptJobProps \<Rightarrow> Function \<Rightarrow> state" where
  "startLambdaTask props jobRunnerLambdaFunction =
     new_LambdaInvoke ''startLambda'' jobRunnerLambdaFunction
       (Obj (environmentVariablesOverride props)) ''$.startLambda''"

definition notifySuccessEventBridgeTask :: "ScriptJobProps \<Rightarrow> string \<Rightarrow> state" where
  "notifySuccessEventBridgeTask props bus =
     new_EventBridgePutEvents ''notifySuccessEventBridgeTask''
       [\<lparr> detailType = success (outgoingEvent props),
           detail = Obj (exportedVarObj props),
           source = supportedEvents (eventManager props) (success (outgoingEvent props)),
           eventBus = bus \<rparr>]
       ''$.notifySuccessEventBridgeTask''"

definition notifyFailureEventBridgeTask :: "ScriptJobProps \<Rightarrow> string \<Rightarrow> state" where
  "notifyFailureEventBridgeTask props bus =
     new_EventBridgePutEvents ''notifyFailureEventBridgeTask''
       [\<lparr> detailType = failure (outgoingEvent props),
           detail = Obj (failureDetail props),
           source = supportedEvents (eventManager props) (failure (outgoingEvent props)),
           eventBus = bus \<rparr>]
       ''$.notifyFailureEventBridgeTask''"

definition createProvisioningStateMachine :: "ScriptJobProps \<Rightarrow> Function \<Rightarrow> string \<Rightarrow> StateMachine" where
  "createProvisioningStateMachine props jobRunnerLambdaFunction bus =
     \<lparr> sm_definition =
         next_state
           (addCatch (startLambdaTask props jobRunnerLambdaFunction)
              (notifyFailureEventBridgeTask props bus) [''States.ALL''] ''$.startLambda.Catch'')
           (notifySuccessEventBridgeTask props bus),
       sm_timeout = Some (hours 1),
       tracingEnabled = True \<rparr>"



text \<open>
  One execution of a state machine on a state input (the incoming event): the
  actions it performs and how it ends.
\<close>

definition execute :: "platform \<Rightarrow> StateMachine \<Rightarrow> json \<Rightarrow> action list \<times> (sfn_error + json)" where
  "execute pf sm ev = run_state pf (sm_definition sm) ev"

text \<open>Handling an event with a job whose backend is any Lambda function.\<close>

definition handle :: "platform \<Rightarrow> ScriptJobProps \<Rightarrow> Function \<Rightarrow> json \<Rightarrow> action list \<times> (sfn_error + json)" where
  "handle pf props f ev =
     execute pf (createProvisioningStateMachine props f (busArn (eventManager props))) ev"



fun invocations :: "action list \<Rightarrow> json list" where
  "invocations [] = []"
| "invocations (Invoked p # as) = p # invocations as"
| "invocations (Published i e # as) = invocations as"

section \<open>Tenant lifecycle jobs (lambda-tenant-lifecycle-script-jobs.ts)\<close>

definition ProvisioningLambdaScriptJob_props :: "TenantLifecycleLambdaScriptJobProps \<Rightarrow> ScriptJobProps" where
  "ProvisioningLambdaScriptJob_props props =
     TenantLifecycleLambdaScriptJobProps.extend props
       (ScriptJobProps.fields ''tenantId''
          [(''tenantStatus'', JStr ''Failed to provision tenant.'')]
          ONBOARDING_REQUEST
          \<lparr> success = PROVISION_SUCCESS, failure = PROVISION_FAILURE \<rparr>)"

definition DeprovisioningLambdaScriptJob_props :: "TenantLifecycleLambdaScriptJobProps \<Rightarrow> ScriptJobProps" where
  "DeprovisioningLambdaScriptJob_props props =
     TenantLifecycleLambdaScriptJobProps.extend props
       (ScriptJobProps.fields ''tenantId''
          [(''tenantStatus'', JStr ''Failed to deprovision tenant.'')]
          OFFBOARDING_REQUEST
          \<lparr> success = DEPROVISION_SUCCESS, failure = DEPROVISION_FAILURE \<rparr>)"

section \<open>Vocabulary of the properties\<close>

text \<open>
  The field of the event's detail with a given name, and the field of the output of a
  backend result with a given name, by key: \<open>event.detail[name]\<close>,
  \<open>result.output[name]\<close>.
\<close>

definition detail_field :: "json \<Rightarrow> string \<Rightarrow> json option" where
  "detail_field ev n = get_keys [''detail'', n] ev"

definition output_field :: "json \<Rightarrow> string \<Rightarrow> json option" where
  "output_field r n = get_keys [''output'', n] r"

definition opt_list :: "'a list option \<Rightarrow> 'a list" where
  "opt_list xs = (case xs of None \<Rightarrow> [] | Some ys \<Rightarrow> ys)"

text \<open>The names a job declares to read from the event, and to write to the success event.\<close>

definition declared :: "ScriptJobProps \<Rightarrow> string list" where
  "declared props =
     opt_list (environmentStringVariablesFromIncomingEvent props)
     @ opt_list (environmentJSONVariablesFromIncomingEvent props)"

definition outputVars :: "ScriptJobProps \<Rightarrow> string list" where
  "outputVars props = opt_list (environmentVariablesToOutgoingEvent props)"





section \<open>Concrete jobs, events and backends\<close>

text \<open>
  A platform without service exceptions, whose PutEvents call always succeeds; its
  \<open>States.JsonToString\<close> is a stand-in that only tells strings from other values, it
  finds no value for an expression that is not a plain path, and the cause it reports
  for a rejected invocation is the rejected value when that is a string.
\<close>

definition pf0 :: platform where
  "pf0 = \<lparr> jsonToString = (\<lambda>v. case v of JStr s \<Rightarrow> [CHR 0x22] @ s @ [CHR 0x22] | _ \<Rightarrow> ''{}''),
           jsonPath = (\<lambda>p v. None),
           lambdaError = (\<lambda>v. (''Error'', case v of JStr s \<Rightarrow> s | _ \<Rightarrow> ''the function failed'')),
           serviceException = (\<lambda>k. None),
           putEvents = (\<lambda>es. Some (JObj [(''FailedEntryCount'', JNum 0)])) \<rparr>"

text \<open>The same platform when the PutEvents call always fails.\<close>

definition pf_down :: platform where
  "pf_down = pf0\<lparr>putEvents := (\<lambda>es. None)\<rparr>"

text \<open>The same platform when the Lambda service fails the first attempt and no other.\<close>

definition pf_flaky :: platform where
  "pf_flaky = pf0\<lparr>serviceException :=
     (\<lambda>k. if k = 0 then Some (''Lambda.ServiceException'', ''try again'') else None)\<rparr>"

definition em0 :: EventManager where
  "em0 = \<lparr> busArn = ''arn:aws:events:us-east-1:000000000000:event-bus/sbt'',
           supportedEvents = (\<lambda>k. ''sbt.application.plane'') \<rparr>"

text \<open>
  The job of the spec's scenarios A and B: a provisioning job that reads \<open>tier\<close> from
  the event and exports \<open>dbEndpoint\<close>; and the scenarios' incoming event.
\<close>

definition scenario_props :: ScriptJobProps where
  "scenario_props =
     ProvisioningLambdaScriptJob_props
       \<lparr> script = ''./provision.sh'',
         environmentStringVariablesFromIncomingEvent = Some [''tier''],
         environmentJSONVariablesFromIncomingEvent = None,
         environmentVariablesToOutgoingEvent = Some [''dbEndpoint''],
         scriptEnvironmentVariables = Some [(''REGION'', ''us-east-1'')],
         eventManager = em0 \<rparr>"

definition scenario_event :: json where
  "scenario_event =
     JObj [(''detail-type'', JStr ''onboardingRequest''),
           (''detail'', JObj [(''tenantId'', JStr ''t1''), (''tier'', JStr ''premium'')])]"

text \<open>A provisioning job that declares no variables at all.\<close>

definition plain_props :: ScriptJobProps where
  "plain_props =
     ProvisioningLambdaScriptJob_props
       \<lparr> script = ''./provision.sh'',
         environmentStringVariablesFromIncomingEvent = None,
         environmentJSONVariablesFromIncomingEvent = None,
         environmentVariablesToOutgoingEvent = None,
         scriptEnvironmentVariables = None,
         eventManager = em0 \<rparr>"

text \<open>
  The same job with a failure status whose key ends in \<open>.$\<close> and whose value is the
  path of the cause of the caught error.
\<close>

definition cause_props :: ScriptJobProps where
  "cause_props = plain_props\<lparr>jobFailureStatus := [(''tenantStatus.$'', JStr ''$.startLambda.Catch.Cause'')]\<rparr>"

text \<open>Backends that return, or reject with, a fixed value.\<close>

definition backend_returning :: "json \<Rightarrow> Function" where
  "backend_returning r = \<lparr> fn_code = (\<lambda>env event. Resolved r), fn_environment = [], fn_timeout = minutes 15 \<rparr>"

definition backend_rejecting :: "json \<Rightarrow> Function" where
  "backend_rejecting v = \<lparr> fn_code = (\<lambda>env event. Rejected v), fn_environment = [], fn_timeout = minutes 15 \<rparr>"

text \<open>
  Runtimes of the inline function: one in which every command succeeds and prints a
  fixed text, one in which every command fails with a fixed text on stderr, and one in
  which the command prints its environment, one \<open>NAME=value\<close> per line (what
  \<open>printenv\<close> does).
\<close>

definition cp_prints :: "string \<Rightarrow> child_process" where
  "cp_prints out =
     \<lparr> child_process_exec = (\<lambda>command env. (False, out, [])),
       other_code = (\<lambda>scr env event. Rejected JNull) \<rparr>"

definition cp_fails :: "string \<Rightarrow> child_process" where
  "cp_fails err =
     \<lparr> child_process_exec = (\<lambda>command env. (True, [], err)),
       other_code = (\<lambda>scr env event. Rejected JNull) \<rparr>"

definition cp_printenv :: child_process where
  "cp_printenv =
     \<lparr> child_process_exec =
         (\<lambda>command env. (False, concat (map (\<lambda>kv. fst kv @ ''='' @ snd kv @ [CHR 0x0A]) env), [])),
       other_code = (\<lambda>scr env event. Rejected JNull) \<rparr>"

text \<open>
  The tenant-provisioning handler deployed as the job's Lambda function, on the small
  operating system, and a job that passes the event's \<open>script\<close> to it.
\<close>

definition tenantprov_function :: Function where
  "tenantprov_function =
     \<lparr> fn_code = (\<lambda>env event. Resolved (tenantprov_handler toy_os Map.empty event)),
       fn_environment = [], fn_timeout = minutes 15 \<rparr>"

definition script_props :: ScriptJobProps where
  "script_props =
     ProvisioningLambdaScriptJob_props
       \<lparr> script = [],
         environmentStringVariablesFromIncomingEvent = Some [''script''],
         environmentJSONVariablesFromIncomingEvent = None,
         environmentVariablesToOutgoingEvent = None,
         scriptEnvironmentVariables = None,
         eventManager = em0 \<rparr>"

definition script_event :: json where
  "script_event =
     JObj [(''detail'', JObj [(''tenantId'', JStr ''t1''),
                              (''script'', JStr ''echo ok; echo warning >&2'')])]"

text \<open>The scenario job with \<open>jobOutput\<close> as its job identifier key.\<close>

definition jobOutput_key_props :: ScriptJobProps where
  "jobOutput_key_props = scenario_props\<lparr>jobIdentifierKey := ''jobOutput''\<rparr>"

text \<open>Events whose detail lacks \<open>tier\<close>, and lacks everything.\<close>

definition event_without_tier :: json where
  "event_without_tier = JObj [(''detail'', JObj [(''tenantId'', JStr ''t1'')])]"

definition event_without_tenantId :: json where
  "event_without_tenantId = JObj [(''detail'', JObj [])]"

section \<open>Auxiliary lemmas\<close>

subsection \<open>Strings and paths\<close>

lemma strip_prefix_append: "strip_prefix xs (xs @ ys) = Some ys"
  by (induction xs) simp_all

lemma strip_suffix_append: "strip_suffix suf (s @ suf) = Some s"
  by (simp add: strip_suffix_def strip_prefix_append)

lemma dot_not_plain: "\<not> plain_char (CHR ''.'')"
  by (simp add: plain_char_def)

lemma plain_name_no_dot: "plain_name n \<Longrightarrow> CHR ''.'' \<notin> set n"
  using dot_not_plain by (auto simp: plain_name_def list_all_iff)

lemma split_at_absent: "c \<notin> set n \<Longrightarrow> split_at c n = [n]"
  by (induction n) auto

lemma plain_consts:
  "plain_name ''detail''" "plain_name ''startLambda''" "plain_name ''Payload''"
  "plain_name ''output''" "plain_name ''Catch''" "plain_name ''jobOutput''"
  "plain_name ''notifySuccessEventBridgeTask''" "plain_name ''notifyFailureEventBridgeTask''"
  by (simp_all add: plain_name_def plain_char_def)

lemma parse_detail:
  "plain_name n \<Longrightarrow> parse_path (detail_path n) = Some [''detail'', n]"
  using plain_consts(1)
  by (simp add: parse_path_def detail_path_def Let_def split_at_absent plain_name_no_dot)



lemma jsonToString_arg_path:
  "jsonToString_arg (detail_path n) = None"
  "jsonToString_arg (payload_output_path n) = None"
  by (simp_all add: jsonToString_arg_def detail_path_def payload_output_path_def)

lemma jsonToString_arg_call:
  "jsonToString_arg (''States.JsonToString('' @ p @ '')'') = Some p"
proof -
  have "strip_prefix ''States.JsonToString('' (''States.JsonToString('' @ (p @ '')'')) = Some (p @ '')'')"
    by (rule strip_prefix_append)
  then show ?thesis
    by (simp add: jsonToString_arg_def strip_suffix_append)
qed




lemma eval_detail_input:
  "plain_name n \<Longrightarrow>
     eval_expr pf (detail_path n) ev =
       (case detail_field ev n of None \<Rightarrow> Inl (Runtime (detail_path n)) | Some v \<Rightarrow> Inr v)"
  by (simp add: eval_expr_def jsonToString_arg_path get_path_def parse_detail detail_field_def)

lemma eval_detail_jsonToString:
  "plain_name n \<Longrightarrow>
     eval_expr pf (''States.JsonToString('' @ detail_path n @ '')'') ev =
       (case detail_field ev n of
          None \<Rightarrow> Inl (Runtime (detail_path n))
        | Some v \<Rightarrow> Inr (JStr (jsonToString pf v)))"
  unfolding eval_expr_def jsonToString_arg_call
  by (simp add: get_path_def parse_detail detail_field_def)


subsection \<open>Objects built by assignment\<close>

lemma update_entry:
  "(a, b) \<in> set (AList.update k v al) \<Longrightarrow> (a, b) \<in> set al \<or> (a, b) = (k, v)"
  by (induction al) (auto split: if_splits)

lemma foldl_update_keys:
  "fst ` set (foldl (\<lambda>acc v. AList.update v (g v) acc) acc0 vs) = fst ` set acc0 \<union> set vs"
  by (induction vs arbitrary: acc0) (auto simp: dom_update)

lemma foldl_update_entry:
  "(k, t) \<in> set (foldl (\<lambda>acc v. AList.update v (g v) acc) acc0 vs)
     \<Longrightarrow> (k, t) \<in> set acc0 \<or> (k \<in> set vs \<and> t = g k)"
proof (induction vs arbitrary: acc0)
  case Nil
  then show ?case by simp
next
  case (Cons v vs)
  from Cons.IH [OF Cons.prems [simplified]]
  show ?case
    by (auto dest: update_entry)
qed


lemma forEach_opt_foldl: "forEach_opt xs f acc = foldl f acc (opt_list xs)"
  by (simp add: forEach_opt_def opt_list_def split: option.splits)

lemma update_jobOutput_pair:
  "AList.update ''jobOutput'' x [(k, y)] =
     (if k = ''jobOutput'' then [(''jobOutput'', x)] else [(k, y), (''jobOutput'', x)])"
  by simp

subsection \<open>Resolving parameters\<close>






lemma token_fields_Inl:
  "\<forall>k t. (k, t) \<in> set fs \<longrightarrow> (\<exists>tok. t = Tok tok) \<Longrightarrow>
   resolve_fields pf (render_fields fs) inp = Inl e \<Longrightarrow>
   \<exists>k tok. (k, Tok tok) \<in> set fs \<and> eval_expr pf (token_expr tok) inp = Inl e"
proof (induction fs)
  case Nil
  then show ?case by simp
next
  case (Cons a fs)
  obtain k t where a: "a = (k, t)" by (cases a)
  from Cons.prems(1) [rule_format, of k t] a obtain tok where t: "t = Tok tok" by auto
  show ?case
  proof (cases "eval_expr pf (token_expr tok) inp")
    case (Inl e')
    with Cons.prems(2) a t show ?thesis by (auto simp: strip_suffix_append)
  next
    case (Inr v)
    with Cons.prems(2) a t have "resolve_fields pf (render_fields fs) inp = Inl e"
      by (simp add: strip_suffix_append split: sum.splits)
    from Cons.IH [OF _ this] Cons.prems(1) show ?thesis
      by (meson list.set_intros(2))
  qed
qed

lemma token_fields_fails:
  "\<forall>k t. (k, t) \<in> set fs \<longrightarrow> (\<exists>tok. t = Tok tok) \<Longrightarrow>
   (k, Tok tok) \<in> set fs \<Longrightarrow> eval_expr pf (token_expr tok) inp = Inl e \<Longrightarrow>
   \<exists>e'. resolve_fields pf (render_fields fs) inp = Inl e'"
proof (induction fs)
  case Nil
  then show ?case by simp
next
  case (Cons a fs)
  obtain k' t' where a: "a = (k', t')" by (cases a)
  from Cons.prems(1) [rule_format, of k' t'] a obtain tok' where t': "t' = Tok tok'" by auto
  show ?case
  proof (cases "(k, Tok tok) = a")
    case True
    with Cons.prems(3) a t' show ?thesis by (auto simp: strip_suffix_append)
  next
    case False
    with Cons.prems(2) have "(k, Tok tok) \<in> set fs" by auto
    from Cons.IH [OF _ this Cons.prems(3)] Cons.prems(1)
    obtain e' where "resolve_fields pf (render_fields fs) inp = Inl e'"
      by (meson list.set_intros(2))
    with a t' show ?thesis by (auto simp: strip_suffix_append split: sum.splits)
  qed
qed


subsection \<open>Retries of the Lambda task\<close>





lemma run_retry_first_rejected:
  assumes "resolve pf t inp = Inr p" and "serviceException pf k = None"
    and "invoke f p = Rejected v"
    and "retry_with rs (TaskFailed (fst (lambdaError pf v)) (snd (lambdaError pf v))) = None"
  shows "run_retry pf i (LambdaInvoke f t) rs inp k
           = ([Invoked p], Inl (TaskFailed (fst (lambdaError pf v)) (snd (lambdaError pf v))))"
  using assms by (subst run_retry.simps) simp


subsection \<open>The states of the job\<close>













subsection \<open>The payload and the details\<close>

lemma env_keys: "fst ` set (environmentVariablesOverride props) = set (declared props)"
  by (simp add: environmentVariablesOverride_def forEach_opt_foldl foldl_update_keys declared_def)

lemma env_entry:
  assumes "(k, t) \<in> set (environmentVariablesOverride props)"
  shows "k \<in> set (declared props)
         \<and> (t = Tok (StringAt (detail_path k)) \<or> t = Tok (JsonToString (ObjectAt (detail_path k))))"
proof -
  from assms have "k \<in> fst ` set (environmentVariablesOverride props)"
    by force
  then have k: "k \<in> set (declared props)"
    by (simp add: env_keys)
  from assms foldl_update_entry
    [of k t "\<lambda>v. Tok (JsonToString (ObjectAt (detail_path v)))"
        "foldl (\<lambda>acc v. AList.update v (Tok (StringAt (detail_path v))) acc) []
           (opt_list (environmentStringVariablesFromIncomingEvent props))"
        "opt_list (environmentJSONVariablesFromIncomingEvent props)"]
  have "(k, t) \<in> set (foldl (\<lambda>acc v. AList.update v (Tok (StringAt (detail_path v))) acc) []
           (opt_list (environmentStringVariablesFromIncomingEvent props)))
        \<or> t = Tok (JsonToString (ObjectAt (detail_path k)))"
    by (auto simp: environmentVariablesOverride_def forEach_opt_foldl)
  then have "t = Tok (StringAt (detail_path k)) \<or> t = Tok (JsonToString (ObjectAt (detail_path k)))"
    by (auto dest: foldl_update_entry)
  with k show ?thesis ..
qed

lemma env_tokens:
  "(k, t) \<in> set (environmentVariablesOverride props) \<Longrightarrow> \<exists>tok. t = Tok tok"
  using env_entry by blast

lemma env_eval:
  assumes "(k, Tok tok) \<in> set (environmentVariablesOverride props)"
    and "list_all plain_name (declared props)"
  shows "k \<in> set (declared props)
         \<and> (case detail_field ev k of
               None \<Rightarrow> eval_expr pf (token_expr tok) ev = Inl (Runtime (detail_path k))
             | Some v \<Rightarrow> \<exists>x. eval_expr pf (token_expr tok) ev = Inr x)"
proof -
  from env_entry [OF assms(1)] have k: "k \<in> set (declared props)"
    and tok: "tok = StringAt (detail_path k) \<or> tok = JsonToString (ObjectAt (detail_path k))"
    by auto
  from k assms(2) have plain: "plain_name k"
    by (simp add: list_all_iff)
  have "token_expr (JsonToString (ObjectAt (detail_path k)))
          = ''States.JsonToString('' @ detail_path k @ '')''"
    by simp
  then have "eval_expr pf (token_expr (JsonToString (ObjectAt (detail_path k)))) ev
          = (case detail_field ev k of
               None \<Rightarrow> Inl (Runtime (detail_path k))
             | Some v \<Rightarrow> Inr (JStr (jsonToString pf v)))"
    using eval_detail_jsonToString [OF plain, of pf ev] by metis
  moreover have "eval_expr pf (token_expr (StringAt (detail_path k))) ev
          = (case detail_field ev k of
               None \<Rightarrow> Inl (Runtime (detail_path k))
             | Some v \<Rightarrow> Inr v)"
    using eval_detail_input [OF plain, of pf ev] by simp
  ultimately have "case detail_field ev k of
               None \<Rightarrow> eval_expr pf (token_expr tok) ev = Inl (Runtime (detail_path k))
             | Some v \<Rightarrow> \<exists>x. eval_expr pf (token_expr tok) ev = Inr x"
    using tok by (auto simp del: token_expr.simps split: option.splits)
  with k show ?thesis ..
qed


lemma payload_fails:
  assumes "list_all plain_name (declared props)"
    and "n \<in> set (declared props)" and "detail_field ev n = None"
  shows "\<exists>m \<in> set (declared props). detail_field ev m = None
           \<and> resolve pf (render (Obj (environmentVariablesOverride props))) ev
               = Inl (Runtime (detail_path m))"
proof -
  have etoks: "\<forall>k t. (k, t) \<in> set (environmentVariablesOverride props) \<longrightarrow> (\<exists>tok. t = Tok tok)"
    using env_tokens by blast
  from assms(2) obtain t where t: "(n, t) \<in> set (environmentVariablesOverride props)"
    using env_keys [of props] by force
  then obtain tok where tok: "t = Tok tok"
    using env_tokens by blast
  from env_eval [OF t [unfolded tok] assms(1), where ev = ev and pf = pf] assms(3)
  have "eval_expr pf (token_expr tok) ev = Inl (Runtime (detail_path n))"
    by simp
  from token_fields_fails [OF etoks t [unfolded tok] this]
  obtain e where e: "resolve_fields pf (render_fields (environmentVariablesOverride props)) ev = Inl e"
    by blast
  from token_fields_Inl [OF etoks e]
  obtain m tok' where m: "(m, Tok tok') \<in> set (environmentVariablesOverride props)"
    and r: "eval_expr pf (token_expr tok') ev = Inl e"
    by blast
  from env_eval [OF m assms(1), where ev = ev and pf = pf] r
  have "m \<in> set (declared props) \<and> detail_field ev m = None \<and> e = Runtime (detail_path m)"
    by (auto split: option.splits)
  with e show ?thesis by auto
qed

lemma payload_resolved:
  assumes "list_all plain_name (declared props)"
    and "resolve pf (render (Obj (environmentVariablesOverride props))) ev = Inr p"
  shows "\<forall>n \<in> set (declared props). detail_field ev n \<noteq> None"
proof
  fix n assume n: "n \<in> set (declared props)"
  show "detail_field ev n \<noteq> None"
  proof
    assume "detail_field ev n = None"
    from payload_fails [OF assms(1) n this, where pf = pf] assms(2) show False by auto
  qed
qed










subsection \<open>The two branches\<close>














subsection \<open>The details of the two events\<close>










text \<open>The definitions that a concrete run unfolds.\<close>

lemmas run_defs =
  handle_def execute_def createProvisioningStateMachine_def startLambdaTask_def
  notifySuccessEventBridgeTask_def notifyFailureEventBridgeTask_def
  new_LambdaInvoke_def new_EventBridgePutEvents_def retryOnServiceExceptions_def
  environmentVariablesOverride_def exportedVarObj_def exportedVarObj_jobOutput_def
  failureDetail_def forEach_opt_def detail_path_def payload_output_path_def
  ProvisioningLambdaScriptJob_props_def DeprovisioningLambdaScriptJob_props_def
  TenantLifecycleLambdaScriptJobProps.extend_def ScriptJobProps.fields_def
  get_path_def put_path_def parse_path_def plain_name_def plain_char_def
  eval_expr_def jsonToString_arg_def strip_suffix_def lambda_response_def
  invoke_def after_def
  createLambdaFunction_def inline_handler_def template_text_def object_assign_def
  detail_field_def output_field_def opt_list_def declared_def outputVars_def
  pf0_def pf_down_def pf_flaky_def em0_def scenario_props_def scenario_event_def plain_props_def
  cause_props_def backend_returning_def backend_rejecting_def
  cp_prints_def cp_fails_def cp_printenv_def
  tenantprov_function_def script_props_def script_event_def
  jobOutput_key_props_def event_without_tier_def event_without_tenantId_def
  tenantprov_handler_def toy_os_def js_or_def error_result_def scriptPath_def defaultScript_def
  bash_def bash_line_def bash_command_def trim_def echo_argument_def word_char_def quoted_char_def
  mode_0o755_def minutes_def hours_def

section \<open>Properties of the tenant-provisioning handler\<close>

lemma bash_defaultScript:
  "bash defaultScript = Some (ExecResolved (''No script provided!'' @ [CHR 0x0A]) [])"
  by (simp add: bash_def defaultScript_def bash_line_def trim_def bash_command_def
      strip_suffix_def echo_argument_def word_char_def quoted_char_def)

lemma bash_warning:
  "bash ''echo ok; echo warning >&2''
     = Some (ExecResolved (''ok'' @ [CHR 0x0A]) (''warning'' @ [CHR 0x0A]))"
  by (simp add: bash_def bash_line_def trim_def bash_command_def strip_suffix_def
      echo_argument_def word_char_def quoted_char_def)

lemma toy_os_exec:
  "exec toy_os (Map.empty(scriptPath \<mapsto> JStr scr)) (''/bin/bash '' @ scriptPath)
     = (case bash scr of None \<Rightarrow> ExecRejected ''Command failed'' | Some r \<Rightarrow> r)"
  by (simp add: toy_os_def scriptPath_def)

lemma toy_os_writeFile: "writeFile toy_os fs p d m = Inr (fs(p \<mapsto> d))"
  by (simp add: toy_os_def)

text \<open>
  C8. Whenever the script was written and run and bash resolved (exit status zero)
  with a non-empty stderr, the handler returns \<open>{error}\<close>, whatever stdout holds; and
  the handler returns \<open>{output: out}\<close> only when the script was written, bash
  resolved with stdout \<open>out\<close>, and stderr was empty.
\<close>

theorem tenantprov_stderr_is_error:
  "(get_prop event ''script'' = Inr s \<longrightarrow>
    writeFile sys fs scriptPath (js_or s (JStr defaultScript)) mode_0o755 = Inr fs' \<longrightarrow>
    exec sys fs' (''/bin/bash '' @ scriptPath) = ExecResolved out err \<longrightarrow>
    err \<noteq> [] \<longrightarrow>
    tenantprov_handler sys fs event = JObj [(''error'', JStr (''Script execution error: '' @ err))])
   \<and>
   (tenantprov_handler sys fs event = JObj [(''output'', JStr out')] \<longrightarrow>
    (\<exists>s' fs''. get_prop event ''script'' = Inr s'
       \<and> writeFile sys fs scriptPath (js_or s' (JStr defaultScript)) mode_0o755 = Inr fs''
       \<and> exec sys fs'' (''/bin/bash '' @ scriptPath) = ExecResolved out' []))"
  by (auto simp: tenantprov_handler_def error_result_def Let_def
      split: sum.splits exec_outcome.splits if_splits)

theorem tenantprov_stderr_is_error_witness:
  "tenantprov_handler toy_os Map.empty (JObj [(''script'', JStr ''echo ok; echo warning >&2'')])
     = JObj [(''error'', JStr (''Script execution error: warning'' @ [CHR 0x0A]))]
   \<and> tenantprov_handler toy_os Map.empty (JObj [])
     = JObj [(''output'', JStr (''No script provided!'' @ [CHR 0x0A]))]
   \<and> exec toy_os (Map.empty(scriptPath \<mapsto> JStr defaultScript)) (''/bin/bash '' @ scriptPath)
     = ExecResolved (''No script provided!'' @ [CHR 0x0A]) []"
proof -
  let ?warn = "''echo ok; echo warning >&2''"
  have g: "get_prop (JObj [(''script'', JStr ?warn)]) ''script'' = Inr (Some (JStr ?warn))"
    by simp
  have w: "writeFile toy_os Map.empty scriptPath (js_or (Some (JStr ?warn)) (JStr defaultScript)) mode_0o755
             = Inr (Map.empty(scriptPath \<mapsto> JStr ?warn))"
    by (simp add: toy_os_writeFile js_or_def)
  have x: "exec toy_os (Map.empty(scriptPath \<mapsto> JStr ?warn)) (''/bin/bash '' @ scriptPath)
             = ExecResolved (''ok'' @ [CHR 0x0A]) (''warning'' @ [CHR 0x0A])"
    unfolding toy_os_exec bash_warning by simp
  have ne: "''warning'' @ [CHR 0x0A] \<noteq> []"
    by simp
  from tenantprov_stderr_is_error [THEN conjunct1, rule_format, OF g w x ne]
  have a: "tenantprov_handler toy_os Map.empty (JObj [(''script'', JStr ?warn)])
             = JObj [(''error'', JStr (''Script execution error: warning'' @ [CHR 0x0A]))]"
    by simp
  have d: "exec toy_os (Map.empty(scriptPath \<mapsto> JStr defaultScript)) (''/bin/bash '' @ scriptPath)
             = ExecResolved (''No script provided!'' @ [CHR 0x0A]) []"
    unfolding toy_os_exec bash_defaultScript by simp
  have h: "tenantprov_handler toy_os Map.empty (JObj [])
             = JObj [(''output'', JStr (''No script provided!'' @ [CHR 0x0A]))]"
    unfolding tenantprov_handler_def
    by (simp add: toy_os_writeFile js_or_def d [simplified])
  from tenantprov_stderr_is_error [THEN conjunct2, rule_format, OF h]
  obtain s' fs'' where "get_prop (JObj []) ''script'' = Inr s'"
    and "writeFile toy_os Map.empty scriptPath (js_or s' (JStr defaultScript)) mode_0o755 = Inr fs''"
    and "exec toy_os fs'' (''/bin/bash '' @ scriptPath)
           = ExecResolved (''No script provided!'' @ [CHR 0x0A]) []"
    by blast
  then have c: "exec toy_os (Map.empty(scriptPath \<mapsto> JStr defaultScript)) (''/bin/bash '' @ scriptPath)
                  = ExecResolved (''No script provided!'' @ [CHR 0x0A]) []"
    by (auto simp: toy_os_writeFile js_or_def)
  from a h c show ?thesis by simp
qed

text \<open>
  C9 does not hold as stated. The event \<open>null\<close> has no \<open>script\<close> field; reading
  \<open>event.script\<close> throws inside \<open>try\<close>, no script is substituted or run, and the
  handler returns \<open>{error}\<close> with the message of the TypeError.
\<close>

theorem null_event_counterexample:
  "tenantprov_handler toy_os Map.empty JNull
     = JObj [(''error'', JStr ''Cannot read properties of null (reading 'script')'')]"
  by (simp add: tenantprov_handler_def error_result_def)

text \<open>
  C9, amended. When \<open>event.script\<close> can be read and is \<open>undefined\<close> (the event is not
  \<open>null\<close> and has no such property) or falsy, the handler behaves as on the event
  \<open>{script: defaultScript}\<close>; so once that script is written, and running the file
  gives what bash gives for the text of \<open>defaultScript\<close>, the handler returns
  \<open>{output: ''No script provided!\n''}\<close>. On the event \<open>null\<close> the handler returns
  \<open>{error}\<close>, whatever the operating system.
\<close>

theorem tenantprov_default_script:
  "(get_prop event ''script'' = Inr s \<longrightarrow>
    (case s of None \<Rightarrow> True | Some v \<Rightarrow> \<not> truthy v) \<longrightarrow>
      tenantprov_handler sys fs event
        = tenantprov_handler sys fs (JObj [(''script'', JStr defaultScript)])
      \<and> (writeFile sys fs scriptPath (JStr defaultScript) mode_0o755 = Inr fs' \<longrightarrow>
         Some (exec sys fs' (''/bin/bash '' @ scriptPath)) = bash defaultScript \<longrightarrow>
         tenantprov_handler sys fs event
           = JObj [(''output'', JStr (''No script provided!'' @ [CHR 0x0A]))]))
   \<and> (event = JNull \<longrightarrow>
        tenantprov_handler sys fs event
          = JObj [(''error'', JStr ''Cannot read properties of null (reading 'script')'')])"
proof (intro conjI impI)
  assume g: "get_prop event ''script'' = Inr s"
    and f: "case s of None \<Rightarrow> True | Some v \<Rightarrow> \<not> truthy v"
  have content: "js_or s (JStr defaultScript) = JStr defaultScript"
    using f by (simp add: js_or_def split: option.splits)
  have same: "js_or (Some (JStr defaultScript)) (JStr defaultScript) = JStr defaultScript"
    by (simp add: js_or_def)
  show "tenantprov_handler sys fs event
          = tenantprov_handler sys fs (JObj [(''script'', JStr defaultScript)])"
    using g content same by (simp add: tenantprov_handler_def Let_def)
  assume w: "writeFile sys fs scriptPath (JStr defaultScript) mode_0o755 = Inr fs'"
    and x: "Some (exec sys fs' (''/bin/bash '' @ scriptPath)) = bash defaultScript"
  from x have "exec sys fs' (''/bin/bash '' @ scriptPath)
                 = ExecResolved (''No script provided!'' @ [CHR 0x0A]) []"
    unfolding bash_defaultScript by simp
  with g content w
  show "tenantprov_handler sys fs event
          = JObj [(''output'', JStr (''No script provided!'' @ [CHR 0x0A]))]"
    by (simp add: tenantprov_handler_def Let_def)
next
  assume "event = JNull"
  then show "tenantprov_handler sys fs event
          = JObj [(''error'', JStr ''Cannot read properties of null (reading 'script')'')]"
    by (simp add: tenantprov_handler_def error_result_def)
qed

theorem tenantprov_default_script_witness:
  "tenantprov_handler toy_os Map.empty (JObj [])
     = JObj [(''output'', JStr (''No script provided!'' @ [CHR 0x0A]))]
   \<and> tenantprov_handler toy_os Map.empty (JObj [(''script'', JStr [])])
     = JObj [(''output'', JStr (''No script provided!'' @ [CHR 0x0A]))]
   \<and> tenantprov_handler toy_os (Map.empty(''/etc/hostname'' \<mapsto> JStr ''host'')) JNull
     = JObj [(''error'', JStr ''Cannot read properties of null (reading 'script')'')]"
proof -
  have a: "get_prop (JObj []) ''script'' = Inr None"
    by simp
  have b: "get_prop (JObj [(''script'', JStr [])]) ''script'' = Inr (Some (JStr []))"
    by simp
  have w: "writeFile toy_os Map.empty scriptPath (JStr defaultScript) mode_0o755
             = Inr (Map.empty(scriptPath \<mapsto> JStr defaultScript))"
    by (simp add: toy_os_writeFile)
  have x: "Some (exec toy_os (Map.empty(scriptPath \<mapsto> JStr defaultScript)) (''/bin/bash '' @ scriptPath))
             = bash defaultScript"
    unfolding toy_os_exec bash_defaultScript by simp
  have c1: "case (None :: json option) of None \<Rightarrow> True | Some v \<Rightarrow> \<not> truthy v"
    by simp
  have c2: "case Some (JStr []) of None \<Rightarrow> True | Some v \<Rightarrow> \<not> truthy v"
    by simp
  have r1: "tenantprov_handler toy_os Map.empty (JObj [])
              = JObj [(''output'', JStr (''No script provided!'' @ [CHR 0x0A]))]"
    using tenantprov_default_script [THEN conjunct1, rule_format, OF a c1, THEN conjunct2,
            rule_format, OF w x] .
  have r2: "tenantprov_handler toy_os Map.empty (JObj [(''script'', JStr [])])
              = JObj [(''output'', JStr (''No script provided!'' @ [CHR 0x0A]))]"
    using tenantprov_default_script [THEN conjunct1, rule_format, OF b c2, THEN conjunct2,
            rule_format, OF w x] .
  have r3: "tenantprov_handler toy_os (Map.empty(''/etc/hostname'' \<mapsto> JStr ''host'')) JNull
     = JObj [(''error'', JStr ''Cannot read properties of null (reading 'script')'')]"
    using tenantprov_default_script [THEN conjunct2, rule_format, OF refl] .
  from r1 r2 r3 show ?thesis by blast
qed

section \<open>Properties of the script job\<close>
















text \<open>
  C6 fails on the code. The job declares \<open>tier\<close> and the static variable
  \<open>REGION\<close>; the machine invokes the function with the payload \<open>{tier: premium}\<close>,
  and the script, which prints its environment, sees \<open>REGION\<close> only: the inline
  handler runs the script in the function's own environment and never reads the
  payload.
\<close>

theorem script_environment_lacks_event_variables:
  "invocations (fst (handle pf0 scenario_props (createLambdaFunction cp_printenv scenario_props)
                       scenario_event))
     = [JObj [(''tier'', JStr ''premium'')]]
   \<and> invoke (createLambdaFunction cp_printenv scenario_props) (JObj [(''tier'', JStr ''premium'')])
     = Resolved (JObj [(''output'', JStr (''REGION=us-east-1'' @ [CHR 0x0A]))])"
  by (simp add: run_defs)

text \<open>
  The same for every job whose script is a text of the template literal: the result of
  the inline handler does not depend on the payload.
\<close>

lemma inline_handler_ignores_event:
  "template_text (script props) \<Longrightarrow>
     invoke (createLambdaFunction cp props) payload = invoke (createLambdaFunction cp props) payload'"
  by (simp add: invoke_def createLambdaFunction_def inline_handler_def Let_def)







end
